theory Spec2Isabelle
  imports Main
begin

section \<open>The rustdoc implementors script \<^verbatim>\<open>implementors/core/marker/trait.Send.js\<close>\<close>

text \<open>
  The repository holds one generated JavaScript file. It is an immediately invoked
  function that binds a local variable \<^verbatim>\<open>implementors\<close> to an object literal and
  then hands that object to the documentation viewer:
  \<^verbatim>\<open>
  (function() {var implementors = { ... };
   if (window.register_implementors) {window.register_implementors(implementors);}
   else {window.pending_implementors = implementors;}})()
  \<close>
\<close>

subsection \<open>JavaScript values\<close>

text \<open>
  The values the script builds and the values a property of \<^verbatim>\<open>window\<close> can hold.
  Numbers are the integral ones and \<open>NaN\<close>: the script's only number is \<open>1\<close>, and its only
  test of a number is for truthiness, where every other double behaves as a non-zero
  integer does. An object is the list of its own properties in insertion order. A
  function is a handle into the page that loaded the script; what calling it does is
  the page's business (see \<open>host\<close> below).
\<close>

datatype jsval =
    Undefined
  | Null
  | Bool bool
  | Num int
  | NaN
  | Str string
  | Arr "jsval list"
  | Obj "(string \<times> jsval) list"
  | Fun nat

text \<open>\<^verbatim>\<open>ToBoolean\<close>: what \<^verbatim>\<open>if (v)\<close> tests.\<close>

fun truthy :: "jsval \<Rightarrow> bool" where
  "truthy Undefined = False"
| "truthy Null = False"
| "truthy (Bool b) = b"
| "truthy (Num n) = (n \<noteq> 0)"
| "truthy NaN = False"
| "truthy (Str s) = (s \<noteq> [])"
| "truthy (Arr xs) = True"
| "truthy (Obj fs) = True"
| "truthy (Fun f) = True"

text \<open>\<^verbatim>\<open>IsCallable\<close>: a call \<^verbatim>\<open>v(...)\<close> of anything else throws a \<^verbatim>\<open>TypeError\<close>.\<close>

fun callable :: "jsval \<Rightarrow> bool" where
  "callable (Fun f) = True"
| "callable v = False"

subsection \<open>The table\<close>

text \<open>
  The object literal of lines 1 to 5 of the file, one definition for each of its three
  properties (lines 2, 3 and 4), with the strings as the file has them.
\<close>

definition ak09915_rs_impls :: "jsval" where
  "ak09915_rs_impls = Arr [
    Arr [Str ''impl <a class=\"trait\" href=\"https://doc.rust-lang.org/1.68.2/core/marker/trait.Send.html\" title=\"trait core::marker::Send\">Send</a> for <a class=\"enum\" href=\"ak09915_rs/enum.Register.html\" title=\"enum ak09915_rs::Register\">Register</a>'',
         Num 1,
         Arr [Str ''ak09915_rs::Register'']],
    Arr [Str ''impl <a class=\"trait\" href=\"https://doc.rust-lang.org/1.68.2/core/marker/trait.Send.html\" title=\"trait core::marker::Send\">Send</a> for <a class=\"enum\" href=\"ak09915_rs/enum.Mode.html\" title=\"enum ak09915_rs::Mode\">Mode</a>'',
         Num 1,
         Arr [Str ''ak09915_rs::Mode'']],
    Arr [Str ''impl&lt;E&gt; <a class=\"trait\" href=\"https://doc.rust-lang.org/1.68.2/core/marker/trait.Send.html\" title=\"trait core::marker::Send\">Send</a> for <a class=\"enum\" href=\"ak09915_rs/enum.Error.html\" title=\"enum ak09915_rs::Error\">Error</a>&lt;E&gt;<span class=\"where fmt-newline\">where<br>&nbsp;&nbsp;&nbsp;&nbsp;E: <a class=\"trait\" href=\"https://doc.rust-lang.org/1.68.2/core/marker/trait.Send.html\" title=\"trait core::marker::Send\">Send</a>,</span>'',
         Num 1,
         Arr [Str ''ak09915_rs::Error'']],
    Arr [Str ''impl&lt;I2C&gt; <a class=\"trait\" href=\"https://doc.rust-lang.org/1.68.2/core/marker/trait.Send.html\" title=\"trait core::marker::Send\">Send</a> for <a class=\"struct\" href=\"ak09915_rs/struct.Ak09915.html\" title=\"struct ak09915_rs::Ak09915\">Ak09915</a>&lt;I2C&gt;<span class=\"where fmt-newline\">where<br>&nbsp;&nbsp;&nbsp;&nbsp;I2C: <a class=\"trait\" href=\"https://doc.rust-lang.org/1.68.2/core/marker/trait.Send.html\" title=\"trait core::marker::Send\">Send</a>,</span>'',
         Num 1,
         Arr [Str ''ak09915_rs::Ak09915'']]]"

definition embedded_hal_impls :: "jsval" where
  "embedded_hal_impls = Arr [
    Arr [Str ''impl&lt;'a&gt; <a class=\"trait\" href=\"https://doc.rust-lang.org/1.68.2/core/marker/trait.Send.html\" title=\"trait core::marker::Send\">Send</a> for <a class=\"enum\" href=\"embedded_hal/blocking/i2c/enum.Operation.html\" title=\"enum embedded_hal::blocking::i2c::Operation\">Operation</a>&lt;'a&gt;'',
         Num 1,
         Arr [Str ''embedded_hal::blocking::i2c::Operation'']],
    Arr [Str ''impl&lt;'a, W&gt; <a class=\"trait\" href=\"https://doc.rust-lang.org/1.68.2/core/marker/trait.Send.html\" title=\"trait core::marker::Send\">Send</a> for <a class=\"enum\" href=\"embedded_hal/blocking/spi/enum.Operation.html\" title=\"enum embedded_hal::blocking::spi::Operation\">Operation</a>&lt;'a, W&gt;<span class=\"where fmt-newline\">where<br>&nbsp;&nbsp;&nbsp;&nbsp;W: <a class=\"trait\" href=\"https://doc.rust-lang.org/1.68.2/core/marker/trait.Send.html\" title=\"trait core::marker::Send\">Send</a> + <a class=\"trait\" href=\"https://doc.rust-lang.org/1.68.2/core/marker/trait.Sync.html\" title=\"trait core::marker::Sync\">Sync</a>,</span>'',
         Num 1,
         Arr [Str ''embedded_hal::blocking::spi::Operation'']],
    Arr [Str ''impl <a class=\"trait\" href=\"https://doc.rust-lang.org/1.68.2/core/marker/trait.Send.html\" title=\"trait core::marker::Send\">Send</a> for <a class=\"struct\" href=\"embedded_hal/can/struct.StandardId.html\" title=\"struct embedded_hal::can::StandardId\">StandardId</a>'',
         Num 1,
         Arr [Str ''embedded_hal::can::id::StandardId'']],
    Arr [Str ''impl <a class=\"trait\" href=\"https://doc.rust-lang.org/1.68.2/core/marker/trait.Send.html\" title=\"trait core::marker::Send\">Send</a> for <a class=\"struct\" href=\"embedded_hal/can/struct.ExtendedId.html\" title=\"struct embedded_hal::can::ExtendedId\">ExtendedId</a>'',
         Num 1,
         Arr [Str ''embedded_hal::can::id::ExtendedId'']],
    Arr [Str ''impl <a class=\"trait\" href=\"https://doc.rust-lang.org/1.68.2/core/marker/trait.Send.html\" title=\"trait core::marker::Send\">Send</a> for <a class=\"enum\" href=\"embedded_hal/can/enum.Id.html\" title=\"enum embedded_hal::can::Id\">Id</a>'',
         Num 1,
         Arr [Str ''embedded_hal::can::id::Id'']],
    Arr [Str ''impl <a class=\"trait\" href=\"https://doc.rust-lang.org/1.68.2/core/marker/trait.Send.html\" title=\"trait core::marker::Send\">Send</a> for <a class=\"enum\" href=\"embedded_hal/can/enum.ErrorKind.html\" title=\"enum embedded_hal::can::ErrorKind\">ErrorKind</a>'',
         Num 1,
         Arr [Str ''embedded_hal::can::ErrorKind'']],
    Arr [Str ''impl <a class=\"trait\" href=\"https://doc.rust-lang.org/1.68.2/core/marker/trait.Send.html\" title=\"trait core::marker::Send\">Send</a> for <a class=\"enum\" href=\"embedded_hal/digital/v2/enum.PinState.html\" title=\"enum embedded_hal::digital::v2::PinState\">PinState</a>'',
         Num 1,
         Arr [Str ''embedded_hal::digital::v2::PinState'']],
    Arr [Str ''impl&lt;T&gt; <a class=\"trait\" href=\"https://doc.rust-lang.org/1.68.2/core/marker/trait.Send.html\" title=\"trait core::marker::Send\">Send</a> for <a class=\"struct\" href=\"embedded_hal/digital/v1_compat/struct.OldOutputPin.html\" title=\"struct embedded_hal::digital::v1_compat::OldOutputPin\">OldOutputPin</a>&lt;T&gt;<span class=\"where fmt-newline\">where<br>&nbsp;&nbsp;&nbsp;&nbsp;T: <a class=\"trait\" href=\"https://doc.rust-lang.org/1.68.2/core/marker/trait.Send.html\" title=\"trait core::marker::Send\">Send</a>,</span>'',
         Num 1,
         Arr [Str ''embedded_hal::digital::v1_compat::OldOutputPin'']],
    Arr [Str ''impl <a class=\"trait\" href=\"https://doc.rust-lang.org/1.68.2/core/marker/trait.Send.html\" title=\"trait core::marker::Send\">Send</a> for <a class=\"enum\" href=\"embedded_hal/spi/enum.Polarity.html\" title=\"enum embedded_hal::spi::Polarity\">Polarity</a>'',
         Num 1,
         Arr [Str ''embedded_hal::spi::Polarity'']],
    Arr [Str ''impl <a class=\"trait\" href=\"https://doc.rust-lang.org/1.68.2/core/marker/trait.Send.html\" title=\"trait core::marker::Send\">Send</a> for <a class=\"enum\" href=\"embedded_hal/spi/enum.Phase.html\" title=\"enum embedded_hal::spi::Phase\">Phase</a>'',
         Num 1,
         Arr [Str ''embedded_hal::spi::Phase'']],
    Arr [Str ''impl <a class=\"trait\" href=\"https://doc.rust-lang.org/1.68.2/core/marker/trait.Send.html\" title=\"trait core::marker::Send\">Send</a> for <a class=\"struct\" href=\"embedded_hal/spi/struct.Mode.html\" title=\"struct embedded_hal::spi::Mode\">Mode</a>'',
         Num 1,
         Arr [Str ''embedded_hal::spi::Mode'']]]"

definition void_impls :: "jsval" where
  "void_impls = Arr [
    Arr [Str ''impl <a class=\"trait\" href=\"https://doc.rust-lang.org/1.68.2/core/marker/trait.Send.html\" title=\"trait core::marker::Send\">Send</a> for <a class=\"enum\" href=\"void/enum.Void.html\" title=\"enum void::Void\">Void</a>'',
         Num 1,
         Arr [Str ''void::Void'']]]"

definition implementors :: "jsval" where
  "implementors = Obj [
    (''ak09915_rs'', ak09915_rs_impls),
    (''embedded_hal'', embedded_hal_impls),
    (''void'', void_impls)]"

subsection \<open>Reading the table\<close>

text \<open>The own properties of an object, and the elements of an array.\<close>

fun props :: "jsval \<Rightarrow> (string \<times> jsval) list" where
  "props (Obj fs) = fs"
| "props v = []"

fun elems :: "jsval \<Rightarrow> jsval list" where
  "elems (Arr xs) = xs"
| "elems v = []"

definition keys :: "jsval \<Rightarrow> string list" where
  "keys v = map fst (props v)"

text \<open>
  The value of an own property of an object, \<^verbatim>\<open>undefined\<close> when the object has no own
  property of that name. JavaScript's \<^verbatim>\<open>v[k]\<close> also finds what an object inherits from
  its prototype (\<^verbatim>\<open>constructor\<close>, \<^verbatim>\<open>toString\<close>); inherited properties are not modelled, and
  the table is read by its own keys only.
\<close>

definition lookup :: "jsval \<Rightarrow> string \<Rightarrow> jsval" where
  "lookup v k = (case map_of (props v) k of None \<Rightarrow> Undefined | Some x \<Rightarrow> x)"

text \<open>Every element of every property's array, with the key it stands under.\<close>

definition entries :: "jsval \<Rightarrow> (string \<times> jsval) list" where
  "entries v = concat (map (\<lambda>(k, a). map (Pair k) (elems a)) (props v))"

text \<open>
  An entry of the shape the file gives every one of them: a three-element array of a
  string, a number and a one-element array of a string.
\<close>

record impl_entry =
  html :: string
  flag :: int
  type_path :: string

definition entry_of :: "jsval \<Rightarrow> impl_entry option" where
  "entry_of v =
     (case v of
        Arr [Str h, Num n, Arr [Str p]] \<Rightarrow> Some \<lparr>html = h, flag = n, type_path = p\<rparr>
      | _ \<Rightarrow> None)"

text \<open>No function value anywhere inside a value.\<close>

fun no_functions :: "jsval \<Rightarrow> bool" where
  "no_functions (Fun f) = False"
| "no_functions (Arr xs) = list_all no_functions xs"
| "no_functions (Obj fs) = list_all (\<lambda>kv. no_functions (snd kv)) fs"
| "no_functions v = True"

subsection \<open>Reading the strings\<close>

text \<open>
  The entries' strings are rustdoc's HTML for an \<^verbatim>\<open>impl\<close> header and the paths are Rust
  paths. These functions take them apart as far as the properties below need.
\<close>

fun starts_with :: "string \<Rightarrow> string \<Rightarrow> bool" where
  "starts_with [] s = True"
| "starts_with (p # ps) [] = False"
| "starts_with (p # ps) (c # cs) = (if p = c then starts_with ps cs else False)"

text \<open>The text after each occurrence of \<open>p\<close> in a string, in order.\<close>

fun occurrences :: "string \<Rightarrow> string \<Rightarrow> string list" where
  "occurrences p [] = []"
| "occurrences p (c # cs) =
     (if starts_with p (c # cs) then drop (length p) (c # cs) # occurrences p cs
      else occurrences p cs)"

text \<open>The text before the first occurrence of \<open>p\<close>, and the text after it.\<close>

fun before_first :: "string \<Rightarrow> string \<Rightarrow> string option" where
  "before_first p [] = None"
| "before_first p (c # cs) =
     (if starts_with p (c # cs) then Some []
      else map_option (Cons c) (before_first p cs))"

fun after_first :: "string \<Rightarrow> string \<Rightarrow> string option" where
  "after_first p [] = None"
| "after_first p (c # cs) =
     (if starts_with p (c # cs) then Some (drop (length p) (c # cs))
      else after_first p cs)"

definition upto_char :: "char \<Rightarrow> string \<Rightarrow> string" where
  "upto_char c s = takeWhile (\<lambda>x. x \<noteq> c) s"

text \<open>
  The traits a piece of HTML links to: the paths in the \<^verbatim>\<open>title="trait ..."\<close> attributes
  of its anchors.
\<close>

definition trait_titles :: "string \<Rightarrow> string list" where
  "trait_titles s = map (upto_char (CHR 0x22)) (occurrences ''title=\"trait '' s)"

text \<open>
  An \<^verbatim>\<open>impl\<close> header reads \<^verbatim>\<open>impl<generics> TRAIT for TYPE where BOUNDS\<close>. The
  implemented trait is linked before the \<^verbatim>\<open>for\<close>, the implementing type right after it.
\<close>

definition impl_head :: "string \<Rightarrow> string option" where
  "impl_head s = before_first ''</a> for <a '' s"

definition implemented_traits :: "string \<Rightarrow> string list option" where
  "implemented_traits s = map_option trait_titles (impl_head s)"

definition impl_type_name :: "string \<Rightarrow> string option" where
  "impl_type_name s =
     (case after_first ''</a> for <a '' s of
        None \<Rightarrow> None
      | Some r \<Rightarrow> map_option (upto_char (CHR ''<'')) (after_first ''\">'' r))"

text \<open>
  The where-clause of a header, when it has one: the bounded parameter and the traits
  that bound it.
\<close>

definition where_clause :: "string \<Rightarrow> string option" where
  "where_clause s =
     (case after_first ''<span class=\"where fmt-newline\">where<br>&nbsp;&nbsp;&nbsp;&nbsp;'' s of
        None \<Rightarrow> None
      | Some r \<Rightarrow> before_first '',</span>'' r)"

definition where_bound :: "string \<Rightarrow> (string \<times> string list) option" where
  "where_bound s =
     map_option (\<lambda>c. (upto_char (CHR '':'') c, trait_titles c)) (where_clause s)"

text \<open>The segments of a Rust path, split at \<^verbatim>\<open>::\<close>.\<close>

fun segments :: "string \<Rightarrow> string \<Rightarrow> string list" where
  "segments acc [] = [rev acc]"
| "segments acc [c] = [rev (c # acc)]"
| "segments acc (c # d # cs) =
     (if c = CHR '':''
      then (if d = CHR '':'' then rev acc # segments [] cs else segments (c # acc) (d # cs))
      else segments (c # acc) (d # cs))"

definition path_segments :: "string \<Rightarrow> string list" where
  "path_segments p = segments [] p"

definition crate_of :: "string \<Rightarrow> string" where
  "crate_of p = (case path_segments p of [] \<Rightarrow> [] | s # ss \<Rightarrow> s)"

definition last_segment :: "string \<Rightarrow> string" where
  "last_segment p = (case rev (path_segments p) of [] \<Rightarrow> [] | s # ss \<Rightarrow> s)"

subsection \<open>Running the script\<close>

text \<open>
  The global object is a map from property names to values; reading a property it
  does not have gives \<^verbatim>\<open>undefined\<close>. Calling a function value runs code of the page,
  which is no part of this file. What that code does is decided by the function's body
  and by state that is no property of \<^verbatim>\<open>window\<close> (the document, the variables the
  function closes over, the clock), so it is a parameter of every run: \<open>h f args w\<close> is
  the global object the call of \<open>f\<close> leaves behind in this run, or what it throws.
\<close>

type_synonym window = "string \<rightharpoonup> jsval"

datatype js_error = TypeError | Thrown jsval

type_synonym host = "nat \<Rightarrow> jsval list \<Rightarrow> window \<Rightarrow> js_error + window"

definition get_prop :: "window \<Rightarrow> string \<Rightarrow> jsval" where
  "get_prop w p = (case w p of None \<Rightarrow> Undefined | Some v \<Rightarrow> v)"

text \<open>
  What the script itself does, in order: the outcome of its \<^verbatim>\<open>if\<close>, a call it makes,
  a property of \<^verbatim>\<open>window\<close> it assigns.
\<close>

datatype event = Branch bool | Call jsval "jsval list" | Assign string jsval

record run =
  events :: "event list"
  final :: "js_error + window"

text \<open>
  The body of the function, line 5. The variable \<^verbatim>\<open>implementors\<close> is local to the function
  and is no property of \<^verbatim>\<open>window\<close>. The script reads \<^verbatim>\<open>window.register_implementors\<close>
  twice, for the test and for the call; nothing runs between the two reads, so both
  give the same value. The call's result is dropped.
\<close>

definition script :: "host \<Rightarrow> window \<Rightarrow> run" where
  "script h w =
     (if truthy (get_prop w ''register_implementors'')
      then (case get_prop w ''register_implementors'' of
              Fun f \<Rightarrow>
                \<lparr>events = [Branch True, Call (Fun f) [implementors]],
                 final = h f [implementors] w\<rparr>
            | v \<Rightarrow> \<lparr>events = [Branch True], final = Inl TypeError\<rparr>)
      else \<lparr>events = [Branch False, Assign ''pending_implementors'' implementors],
            final = Inr (w(''pending_implementors'' \<mapsto> implementors))\<rparr>)"

text \<open>The calls and the assignments of a run, and the values it handed over.\<close>

fun calls :: "event list \<Rightarrow> (jsval \<times> jsval list) list" where
  "calls [] = []"
| "calls (Call f args # es) = (f, args) # calls es"
| "calls (e # es) = calls es"

fun assigns :: "event list \<Rightarrow> (string \<times> jsval) list" where
  "assigns [] = []"
| "assigns (Assign p v # es) = (p, v) # assigns es"
| "assigns (e # es) = assigns es"

fun branches :: "event list \<Rightarrow> bool list" where
  "branches [] = []"
| "branches (Branch b # es) = b # branches es"
| "branches (e # es) = branches es"

definition delivered :: "event list \<Rightarrow> jsval list" where
  "delivered es = concat (map snd (calls es)) @ map snd (assigns es)"

text \<open>A page whose functions do nothing, for running the script on concrete inputs.\<close>

definition idle_host :: host where
  "idle_host f args w = Inr w"


subsection \<open>The text of the file\<close>

text \<open>
  The file has five lines. The first and the last are the wrapper, given here as the
  file has them. Lines 2 to 4 are the three properties of the table, one on each line,
  in JSON notation: a string between double quotes with every double quote inside it
  written \<^verbatim>\<open>\"\<close>, a number in decimal, an array between brackets with commas and
  no spaces. Every line of a property but the last ends in a comma.
\<close>

definition wrapper_head :: string where
  "wrapper_head = ''(function() {var implementors = {''"

definition wrapper_tail :: string where
  "wrapper_tail = ''};if (window.register_implementors) {window.register_implementors(implementors);} else {window.pending_implementors = implementors;}})()''"

definition string_text :: "string \<Rightarrow> string" where
  "string_text s =
     [CHR 0x22] @
     concat (map (\<lambda>c. if c = CHR 0x22 \<or> c = CHR 0x5C then [CHR 0x5C, c] else [c]) s) @
     [CHR 0x22]"

fun digits :: "nat \<Rightarrow> string" where
  "digits n =
     (if n < 10 then [char_of (48 + n)]
      else digits (n div 10) @ [char_of (48 + n mod 10)])"

definition number_text :: "int \<Rightarrow> string" where
  "number_text i = (if i < 0 then CHR ''-'' # digits (nat (- i)) else digits (nat i))"

fun commas :: "string list \<Rightarrow> string" where
  "commas [] = []"
| "commas [s] = s"
| "commas (s # t # ts) = s @ CHR '','' # commas (t # ts)"

text \<open>
  The notation of the values a property of the table is made of: strings, numbers and
  arrays of them. No other value stands inside a property.
\<close>

fun value_text :: "jsval \<Rightarrow> string option" where
  "value_text (Str s) = Some (string_text s)"
| "value_text (Num i) = Some (number_text i)"
| "value_text (Arr xs) =
     map_option (\<lambda>ts. CHR ''['' # commas ts @ '']'') (those (map value_text xs))"
| "value_text v = None"

definition property_text :: "string \<times> jsval \<Rightarrow> string option" where
  "property_text kv = map_option (\<lambda>t. string_text (fst kv) @ CHR '':'' # t) (value_text (snd kv))"

fun comma_ended :: "string list \<Rightarrow> string list" where
  "comma_ended [] = []"
| "comma_ended [s] = [s]"
| "comma_ended (s # t # ts) = (s @ '','') # comma_ended (t # ts)"

definition script_lines :: "string list option" where
  "script_lines =
     map_option (\<lambda>ps. wrapper_head # comma_ended ps @ [wrapper_tail])
       (those (map property_text (props implementors)))"

text \<open>
  Where an object literal ends: a scan of the text after its opening brace, counting
  braces outside string literals. The result is the number of the line that holds the
  closing brace.
\<close>

datatype lex_state = Code | InString | Escaped

fun close_line :: "nat \<Rightarrow> lex_state \<Rightarrow> nat \<Rightarrow> string \<Rightarrow> string list \<Rightarrow> nat option" where
  "close_line d q n [] [] = None"
| "close_line d q n [] (l # ls) = close_line d q (Suc n) l ls"
| "close_line d Escaped n (c # cs) ls = close_line d InString n cs ls"
| "close_line d InString n (c # cs) ls =
     (if c = CHR 0x5C then close_line d Escaped n cs ls
      else if c = CHR 0x22 then close_line d Code n cs ls
      else close_line d InString n cs ls)"
| "close_line d Code n (c # cs) ls =
     (if c = CHR 0x22 then close_line d InString n cs ls
      else if c = CHR ''{'' then close_line (Suc d) Code n cs ls
      else if c = CHR ''}'' then (if d = 0 then Some n else close_line (d - 1) Code n cs ls)
      else close_line d Code n cs ls)"

text \<open>
  The lines the table's literal spans: the line of \<^verbatim>\<open>var implementors = {\<close> and the line
  of the brace that closes it, counted from 1.
\<close>

fun table_span :: "nat \<Rightarrow> string list \<Rightarrow> (nat \<times> nat) option" where
  "table_span n [] = None"
| "table_span n (l # ls) =
     (case after_first ''var implementors = {'' l of
        None \<Rightarrow> table_span (Suc n) ls
      | Some r \<Rightarrow> map_option (Pair n) (close_line 0 Code n r ls))"

definition lines_spanned :: "string list \<Rightarrow> nat option" where
  "lines_spanned ls = map_option (\<lambda>(a, b). Suc b - a) (table_span 1 ls)"


subsection \<open>Properties of entries\<close>

text \<open>
  The key an entry stands under names the trait the entry implements: by the trait's
  path or by its last segment.
\<close>

definition key_names_trait :: "string \<Rightarrow> jsval \<Rightarrow> bool" where
  "key_names_trait k e =
     (case entry_of e of
        None \<Rightarrow> False
      | Some x \<Rightarrow>
          (case implemented_traits (html x) of
             Some [t] \<Rightarrow> k = t \<or> k = last_segment t
           | _ \<Rightarrow> False))"

text \<open>
  The key an entry stands under names the crate of the entry's type: the path of the
  type starts with it, and the type's page is in the directory of that name.
\<close>

definition impl_type_href :: "string \<Rightarrow> string option" where
  "impl_type_href s =
     (case after_first ''</a> for <a '' s of
        None \<Rightarrow> None
      | Some r \<Rightarrow> map_option (upto_char (CHR 0x22)) (after_first ''href=\"'' r))"

definition key_names_crate :: "string \<Rightarrow> jsval \<Rightarrow> bool" where
  "key_names_crate k e =
     (case entry_of e of
        None \<Rightarrow> False
      | Some x \<Rightarrow>
          crate_of (type_path x) = k \<and>
          map_option (upto_char (CHR ''/'')) (impl_type_href (html x)) = Some k)"

text \<open>The one trait an entry implements.\<close>

definition implements :: "string \<Rightarrow> jsval \<Rightarrow> bool" where
  "implements t e =
     (case entry_of e of
        None \<Rightarrow> False
      | Some x \<Rightarrow> implemented_traits (html x) = Some [t])"

text \<open>
  An entry that is documentation only: a triple of the HTML of an \<^verbatim>\<open>impl\<close> header with
  its links, the number 1, and the one path of the type the header names, a path of
  two segments or more.
\<close>

definition descriptive :: "jsval \<Rightarrow> bool" where
  "descriptive e =
     (case entry_of e of
        None \<Rightarrow> False
      | Some x \<Rightarrow>
          flag x = 1 \<and>
          starts_with ''impl'' (html x) \<and>
          after_first ''<a class=\"'' (html x) \<noteq> None \<and>
          2 \<le> length (path_segments (type_path x)) \<and>
          list_all (\<lambda>s. s \<noteq> []) (path_segments (type_path x)) \<and>
          impl_type_name (html x) = Some (last_segment (type_path x)))"

text \<open>The path of an entry's type with the bound of its where-clause, if it has one.\<close>

definition bound_of :: "jsval \<Rightarrow> (string \<times> (string \<times> string list) option) option" where
  "bound_of e = map_option (\<lambda>x. (type_path x, where_bound (html x))) (entry_of e)"

subsection \<open>Pages to run the script in\<close>

definition page_empty :: window where
  "page_empty = Map.empty"

definition page_ready :: window where
  "page_ready = Map.empty(''register_implementors'' \<mapsto> Fun 0)"

definition page_zero :: window where
  "page_zero = Map.empty(''register_implementors'' \<mapsto> Num 0)"

definition page_object :: window where
  "page_object = Map.empty(''register_implementors'' \<mapsto> Obj [])"

definition page_other :: window where
  "page_other = Map.empty(''register_implementors'' \<mapsto> Fun 0, ''search_index'' \<mapsto> Num 7)"

text \<open>A page whose functions all throw.\<close>

definition failing_host :: host where
  "failing_host f args w = Inl (Thrown Undefined)"

text \<open>A page whose functions store the arguments they are called with.\<close>

definition keeping_host :: host where
  "keeping_host f args w = Inr (w(''received'' \<mapsto> Arr args))"

text \<open>
  A page whose functions store a value they take from outside \<^verbatim>\<open>window\<close>, a reading of
  the clock say.
\<close>

definition stamp_host :: "jsval \<Rightarrow> host" where
  "stamp_host v f args w = Inr (w(''stamp'' \<mapsto> v))"

text \<open>A page whose functions do nothing when called with one argument, and throw otherwise.\<close>

definition strict_host :: host where
  "strict_host f args w = (if length args = 1 then Inr w else Inl (Thrown Undefined))"


section \<open>What the script does\<close>

text \<open>
  The three ways through the body: the test fails and the table is stored; the test
  succeeds and the value is a function, which is called; the test succeeds and the
  value is no function, so the call throws.
\<close>

lemma script_cases:
  "script h w =
     (if \<not> truthy (get_prop w ''register_implementors'')
      then \<lparr>events = [Branch False, Assign ''pending_implementors'' implementors],
            final = Inr (w(''pending_implementors'' \<mapsto> implementors))\<rparr>
      else if callable (get_prop w ''register_implementors'')
      then \<lparr>events = [Branch True, Call (get_prop w ''register_implementors'') [implementors]],
            final = (case get_prop w ''register_implementors'' of
                       Fun f \<Rightarrow> h f [implementors] w
                     | _ \<Rightarrow> Inl TypeError)\<rparr>
      else \<lparr>events = [Branch True], final = Inl TypeError\<rparr>)"
  by (cases "get_prop w ''register_implementors''") (simp_all add: script_def)

lemma get_prop_pages:
  "get_prop page_empty ''register_implementors'' = Undefined"
  "get_prop page_ready ''register_implementors'' = Fun 0"
  "get_prop page_other ''register_implementors'' = Fun 0"
  "get_prop page_zero ''register_implementors'' = Num 0"
  "get_prop page_object ''register_implementors'' = Obj []"
  by (simp_all add: get_prop_def page_empty_def page_ready_def page_other_def
      page_zero_def page_object_def)

text \<open>
  C1, as stated, fails: on a page where \<^verbatim>\<open>window.register_implementors\<close> is defined as
  an object that is no function, the test succeeds, the call throws a \<^verbatim>\<open>TypeError\<close>, and
  the script neither calls anything nor assigns \<^verbatim>\<open>window.pending_implementors\<close>.
\<close>

theorem neither_call_nor_assignment:
  "get_prop page_object ''register_implementors'' \<noteq> Undefined \<and>
   calls (events (script idle_host page_object)) = [] \<and>
   assigns (events (script idle_host page_object)) = [] \<and>
   final (script idle_host page_object) = Inl TypeError"
  by (simp add: script_cases get_prop_pages)

text \<open>
  C1, amended: when \<^verbatim>\<open>window.register_implementors\<close> is truthy and a function, the
  script calls it exactly once, with the table as its one argument, assigns nothing,
  and leaves the global object as that call leaves it; when it is falsy (undefined,
  null, false, 0, NaN or the empty string), the script assigns the table to
  \<^verbatim>\<open>window.pending_implementors\<close>, calls nothing, and leaves the global object it found
  with that one property set to the table; when it is truthy and no function, the call
  throws a \<^verbatim>\<open>TypeError\<close> and neither happens. No execution does both.
\<close>

theorem register_or_pending:
  "(truthy (get_prop w ''register_implementors'') \<and>
    callable (get_prop w ''register_implementors'') \<longrightarrow>
      calls (events (script h w)) = [(get_prop w ''register_implementors'', [implementors])] \<and>
      assigns (events (script h w)) = []) \<and>
   (\<forall>f. get_prop w ''register_implementors'' = Fun f \<longrightarrow>
      events (script h w) = [Branch True, Call (Fun f) [implementors]] \<and>
      final (script h w) = h f [implementors] w) \<and>
   (\<not> truthy (get_prop w ''register_implementors'') \<longrightarrow>
      calls (events (script h w)) = [] \<and>
      assigns (events (script h w)) = [(''pending_implementors'', implementors)] \<and>
      events (script h w) = [Branch False, Assign ''pending_implementors'' implementors] \<and>
      final (script h w) = Inr (w(''pending_implementors'' \<mapsto> implementors))) \<and>
   (truthy (get_prop w ''register_implementors'') \<and>
    \<not> callable (get_prop w ''register_implementors'') \<longrightarrow>
      calls (events (script h w)) = [] \<and>
      assigns (events (script h w)) = [] \<and>
      events (script h w) = [Branch True] \<and>
      final (script h w) = Inl TypeError) \<and>
   length (calls (events (script h w))) + length (assigns (events (script h w))) \<le> 1"
proof -
  have "calls (events (script h w)) = [(get_prop w ''register_implementors'', [implementors])] \<and>
      assigns (events (script h w)) = []"
    if "truthy (get_prop w ''register_implementors'') \<and>
        callable (get_prop w ''register_implementors'')"
    using that by (simp add: script_cases)
  moreover have "events (script h w) = [Branch True, Call (Fun f) [implementors]] \<and>
      final (script h w) = h f [implementors] w"
    if "get_prop w ''register_implementors'' = Fun f" for f
    using that by (simp add: script_def)
  moreover have "calls (events (script h w)) = [] \<and>
      assigns (events (script h w)) = [(''pending_implementors'', implementors)] \<and>
      events (script h w) = [Branch False, Assign ''pending_implementors'' implementors] \<and>
      final (script h w) = Inr (w(''pending_implementors'' \<mapsto> implementors))"
    if "\<not> truthy (get_prop w ''register_implementors'')"
    using that by (simp add: script_cases)
  moreover have "calls (events (script h w)) = [] \<and>
      assigns (events (script h w)) = [] \<and>
      events (script h w) = [Branch True] \<and>
      final (script h w) = Inl TypeError"
    if "truthy (get_prop w ''register_implementors'') \<and>
        \<not> callable (get_prop w ''register_implementors'')"
    using that by (simp add: script_cases)
  moreover have
    "length (calls (events (script h w))) + length (assigns (events (script h w))) \<le> 1"
    by (simp add: script_cases)
  ultimately show ?thesis by blast
qed

theorem register_or_pending_witness:
  "calls (events (script keeping_host page_ready)) = [(Fun 0, [implementors])] \<and>
   assigns (events (script keeping_host page_ready)) = [] \<and>
   final (script keeping_host page_ready) =
     Inr (page_ready(''received'' \<mapsto> Arr [implementors])) \<and>
   calls (events (script keeping_host page_zero)) = [] \<and>
   assigns (events (script keeping_host page_zero)) = [(''pending_implementors'', implementors)] \<and>
   final (script keeping_host page_zero) =
     Inr (page_zero(''pending_implementors'' \<mapsto> implementors)) \<and>
   calls (events (script failing_host page_object)) = [] \<and>
   assigns (events (script failing_host page_object)) = [] \<and>
   final (script failing_host page_object) = Inl TypeError"
proof -
  have ready: "truthy (get_prop page_ready ''register_implementors'') \<and>
      callable (get_prop page_ready ''register_implementors'')"
    by (simp add: get_prop_pages)
  have "function": "get_prop page_ready ''register_implementors'' = Fun 0"
    by (simp add: get_prop_pages)
  have zero: "\<not> truthy (get_prop page_zero ''register_implementors'')"
    by (simp add: get_prop_pages)
  have object: "truthy (get_prop page_object ''register_implementors'') \<and>
      \<not> callable (get_prop page_object ''register_implementors'')"
    by (simp add: get_prop_pages)
  from ready register_or_pending [of page_ready keeping_host]
  have "calls (events (script keeping_host page_ready)) = [(Fun 0, [implementors])] \<and>
      assigns (events (script keeping_host page_ready)) = []"
    by (simp add: get_prop_pages)
  moreover from "function" register_or_pending [of page_ready keeping_host]
  have "final (script keeping_host page_ready) = keeping_host 0 [implementors] page_ready"
    by blast
  then have "final (script keeping_host page_ready) =
      Inr (page_ready(''received'' \<mapsto> Arr [implementors]))"
    by (simp add: keeping_host_def)
  moreover from zero register_or_pending [of page_zero keeping_host]
  have "calls (events (script keeping_host page_zero)) = [] \<and>
      assigns (events (script keeping_host page_zero)) = [(''pending_implementors'', implementors)] \<and>
      final (script keeping_host page_zero) =
        Inr (page_zero(''pending_implementors'' \<mapsto> implementors))"
    by blast
  moreover from object register_or_pending [of page_object failing_host]
  have "calls (events (script failing_host page_object)) = [] \<and>
      assigns (events (script failing_host page_object)) = [] \<and>
      final (script failing_host page_object) = Inl TypeError"
    by blast
  ultimately show ?thesis by blast
qed

text \<open>
  C2, as stated, fails: on a page without \<^verbatim>\<open>window.register_implementors\<close> the script
  takes the else branch of its \<^verbatim>\<open>if\<close> and assigns \<^verbatim>\<open>window.pending_implementors\<close>, so
  the global object it leaves is not the one it found.
\<close>

theorem branch_and_write_on_empty_page:
  "branches (events (script idle_host page_empty)) = [False] \<and>
   assigns (events (script idle_host page_empty)) = [(''pending_implementors'', implementors)] \<and>
   final (script idle_host page_empty) \<noteq> Inr page_empty"
  by (simp add: script_cases get_prop_pages) (simp add: page_empty_def)

text \<open>
  C2, amended: the script has no loop and keeps no state of its own, but every
  execution takes exactly one conditional branch, on the truthiness of
  \<^verbatim>\<open>window.register_implementors\<close>, and in the falsy branch the script modifies the
  global object by its one assignment to \<^verbatim>\<open>window.pending_implementors\<close>; in the truthy
  branch the script itself assigns nothing, and the global object is as the called
  function leaves it.
\<close>

theorem one_branch_one_write:
  "branches (events (script h w)) = [truthy (get_prop w ''register_implementors'')] \<and>
   assigns (events (script h w)) =
     (if truthy (get_prop w ''register_implementors'') then []
      else [(''pending_implementors'', implementors)]) \<and>
   final (script h w) =
     (if truthy (get_prop w ''register_implementors'')
      then (case get_prop w ''register_implementors'' of
              Fun f \<Rightarrow> h f [implementors] w
            | _ \<Rightarrow> Inl TypeError)
      else Inr (w(''pending_implementors'' \<mapsto> implementors)))"
  by (cases "get_prop w ''register_implementors''") (simp_all add: script_def)

text \<open>
  C7, as stated, fails: two executions that start from the same global object, with
  \<^verbatim>\<open>window.register_implementors\<close> a function, end in different global objects when the
  call of that function does not do the same in both. The script hands the table to
  code of the page and leaves the global object to it.
\<close>

theorem same_page_two_outcomes:
  "final (script (stamp_host (Num 1)) page_ready) = Inr (page_ready(''stamp'' \<mapsto> Num 1)) \<and>
   final (script (stamp_host (Num 2)) page_ready) = Inr (page_ready(''stamp'' \<mapsto> Num 2)) \<and>
   final (script (stamp_host (Num 1)) page_ready) \<noteq> final (script (stamp_host (Num 2)) page_ready)"
proof -
  have one: "final (script (stamp_host (Num 1)) page_ready) = Inr (page_ready(''stamp'' \<mapsto> Num 1))"
    by (simp add: script_cases get_prop_pages stamp_host_def)
  have two: "final (script (stamp_host (Num 2)) page_ready) = Inr (page_ready(''stamp'' \<mapsto> Num 2))"
    by (simp add: script_cases get_prop_pages stamp_host_def)
  have "page_ready(''stamp'' \<mapsto> Num 1) \<noteq> page_ready(''stamp'' \<mapsto> Num 2)"
  proof
    assume "page_ready(''stamp'' \<mapsto> Num 1) = page_ready(''stamp'' \<mapsto> Num 2)"
    then have "(page_ready(''stamp'' \<mapsto> Num 1)) ''stamp'' = (page_ready(''stamp'' \<mapsto> Num 2)) ''stamp''"
      by (rule arg_cong)
    then show False by simp
  qed
  with one two show ?thesis by simp
qed

text \<open>
  C7, amended: the script itself adds no choice and reads nothing of the page but
  \<^verbatim>\<open>window.register_implementors\<close>. What it does depends only on that value, and the
  value it hands over, by call or by assignment, is the constant table in every
  execution. When that value is falsy, the global object it leaves is the one it found
  with \<^verbatim>\<open>pending_implementors\<close> set to the table; when it is truthy and no function, the
  script throws a \<^verbatim>\<open>TypeError\<close>; in both cases the whole run is the same whatever the
  page's functions do. When it is a function, the global object is exactly what the
  call of that function with the table leaves, so two executions from the same global
  object end alike exactly when that call has the same outcome in both.
\<close>

theorem script_determined_by_callee:
  "(get_prop w1 ''register_implementors'' = get_prop w2 ''register_implementors'' \<longrightarrow>
      events (script h1 w1) = events (script h2 w2)) \<and>
   (\<not> truthy (get_prop w ''register_implementors'') \<longrightarrow>
      events (script h w) = [Branch False, Assign ''pending_implementors'' implementors] \<and>
      final (script h w) = Inr (w(''pending_implementors'' \<mapsto> implementors))) \<and>
   (truthy (get_prop w ''register_implementors'') \<and>
    \<not> callable (get_prop w ''register_implementors'') \<longrightarrow>
      events (script h w) = [Branch True] \<and>
      final (script h w) = Inl TypeError) \<and>
   (\<forall>f. get_prop w ''register_implementors'' = Fun f \<longrightarrow>
      events (script h w) = [Branch True, Call (Fun f) [implementors]] \<and>
      final (script h w) = h f [implementors] w \<and>
      (final (script h1 w) = final (script h2 w) \<longleftrightarrow>
         h1 f [implementors] w = h2 f [implementors] w)) \<and>
   (\<not> callable (get_prop w ''register_implementors'') \<longrightarrow> script h1 w = script h2 w) \<and>
   set (delivered (events (script h w))) \<subseteq> {implementors} \<and>
   (callable (get_prop w ''register_implementors'') \<or>
    \<not> truthy (get_prop w ''register_implementors'') \<longrightarrow>
      delivered (events (script h w)) = [implementors])"
proof -
  have "events (script h1 w1) = events (script h2 w2)"
    if "get_prop w1 ''register_implementors'' = get_prop w2 ''register_implementors''"
    using that by (simp add: script_cases)
  moreover have "events (script h w) = [Branch False, Assign ''pending_implementors'' implementors] \<and>
      final (script h w) = Inr (w(''pending_implementors'' \<mapsto> implementors))"
    if "\<not> truthy (get_prop w ''register_implementors'')"
    using that by (simp add: script_cases)
  moreover have "events (script h w) = [Branch True] \<and> final (script h w) = Inl TypeError"
    if "truthy (get_prop w ''register_implementors'') \<and>
        \<not> callable (get_prop w ''register_implementors'')"
    using that by (simp add: script_cases)
  moreover have "events (script h w) = [Branch True, Call (Fun f) [implementors]] \<and>
      final (script h w) = h f [implementors] w \<and>
      (final (script h1 w) = final (script h2 w) \<longleftrightarrow>
         h1 f [implementors] w = h2 f [implementors] w)"
    if "get_prop w ''register_implementors'' = Fun f" for f
    using that by (simp add: script_def)
  moreover have "script h1 w = script h2 w"
    if "\<not> callable (get_prop w ''register_implementors'')"
    using that by (simp add: script_cases)
  moreover have "set (delivered (events (script h w))) \<subseteq> {implementors}"
    by (simp add: script_cases delivered_def)
  moreover have "delivered (events (script h w)) = [implementors]"
    if "callable (get_prop w ''register_implementors'') \<or>
        \<not> truthy (get_prop w ''register_implementors'')"
    using that by (auto simp add: script_cases delivered_def)
  ultimately show ?thesis by blast
qed

theorem script_determined_by_callee_witness:
  "events (script idle_host page_ready) = events (script failing_host page_other) \<and>
   final (script failing_host page_zero) =
     Inr (page_zero(''pending_implementors'' \<mapsto> implementors)) \<and>
   final (script idle_host page_object) = Inl TypeError \<and>
   final (script keeping_host page_ready) =
     Inr (page_ready(''received'' \<mapsto> Arr [implementors])) \<and>
   final (script idle_host page_ready) = final (script strict_host page_ready) \<and>
   script idle_host page_zero = script failing_host page_zero \<and>
   delivered (events (script idle_host page_ready)) = [implementors] \<and>
   delivered (events (script idle_host page_empty)) = [implementors]"
proof -
  have same: "get_prop page_ready ''register_implementors'' =
      get_prop page_other ''register_implementors''"
    by (simp add: get_prop_pages)
  have zero: "\<not> truthy (get_prop page_zero ''register_implementors'')"
    and zero': "\<not> callable (get_prop page_zero ''register_implementors'')"
    by (simp_all add: get_prop_pages)
  have object: "truthy (get_prop page_object ''register_implementors'') \<and>
      \<not> callable (get_prop page_object ''register_implementors'')"
    by (simp add: get_prop_pages)
  have "function": "get_prop page_ready ''register_implementors'' = Fun 0"
    by (simp add: get_prop_pages)
  have agree: "idle_host 0 [implementors] page_ready = strict_host 0 [implementors] page_ready"
    by (simp add: idle_host_def strict_host_def)
  have ready: "callable (get_prop page_ready ''register_implementors'')"
    by (simp add: get_prop_pages)
  have empty: "\<not> truthy (get_prop page_empty ''register_implementors'')"
    by (simp add: get_prop_pages)
  from same script_determined_by_callee [of page_ready page_other idle_host failing_host]
  have "events (script idle_host page_ready) = events (script failing_host page_other)"
    by blast
  moreover from zero script_determined_by_callee [where w = page_zero and h = failing_host]
  have "final (script failing_host page_zero) =
      Inr (page_zero(''pending_implementors'' \<mapsto> implementors))"
    by blast
  moreover from object script_determined_by_callee [where w = page_object and h = idle_host]
  have "final (script idle_host page_object) = Inl TypeError"
    by blast
  moreover from "function" script_determined_by_callee [where w = page_ready and h = keeping_host]
  have "final (script keeping_host page_ready) = keeping_host 0 [implementors] page_ready"
    by blast
  then have "final (script keeping_host page_ready) =
      Inr (page_ready(''received'' \<mapsto> Arr [implementors]))"
    by (simp add: keeping_host_def)
  moreover from "function" agree
    script_determined_by_callee [where w = page_ready and ?h1.0 = idle_host and ?h2.0 = strict_host]
  have "final (script idle_host page_ready) = final (script strict_host page_ready)"
    by blast
  moreover from zero'
    script_determined_by_callee [where w = page_zero and ?h1.0 = idle_host and ?h2.0 = failing_host]
  have "script idle_host page_zero = script failing_host page_zero"
    by blast
  moreover from ready script_determined_by_callee [where w = page_ready and h = idle_host]
  have "delivered (events (script idle_host page_ready)) = [implementors]"
    by blast
  moreover from empty script_determined_by_callee [where w = page_empty and h = idle_host]
  have "delivered (events (script idle_host page_empty)) = [implementors]"
    by blast
  ultimately show ?thesis by blast
qed

text \<open>
  C10: the script assigns at most one property of the global object. It assigns
  \<^verbatim>\<open>window.pending_implementors\<close> exactly when \<^verbatim>\<open>window.register_implementors\<close> is falsy, and
  it assigns no other property. In that case the global object it leaves is the one it
  found with \<^verbatim>\<open>pending_implementors\<close> set to the table: every other property,
  \<^verbatim>\<open>register_implementors\<close> among them, is as it was. When \<^verbatim>\<open>window.register_implementors\<close>
  is a function, the script assigns nothing, calls it on the global object as it found
  it, and leaves the global object exactly as the call leaves it; when it is truthy and
  no function, the script assigns nothing and throws.
\<close>

theorem only_pending_is_assigned:
  "(Assign ''pending_implementors'' implementors \<in> set (events (script h w)) \<longleftrightarrow>
      \<not> truthy (get_prop w ''register_implementors'')) \<and>
   (\<forall>p v. Assign p v \<in> set (events (script h w)) \<longrightarrow>
      p = ''pending_implementors'' \<and> v = implementors) \<and>
   length (assigns (events (script h w))) \<le> 1 \<and>
   (\<not> truthy (get_prop w ''register_implementors'') \<longrightarrow>
      final (script h w) = Inr (w(''pending_implementors'' \<mapsto> implementors)) \<and>
      (\<exists>w'. final (script h w) = Inr w' \<and>
            w' ''pending_implementors'' = Some implementors \<and>
            w' ''register_implementors'' = w ''register_implementors'' \<and>
            (\<forall>p. p \<noteq> ''pending_implementors'' \<longrightarrow> w' p = w p))) \<and>
   (\<forall>f. get_prop w ''register_implementors'' = Fun f \<longrightarrow>
      events (script h w) = [Branch True, Call (Fun f) [implementors]] \<and>
      assigns (events (script h w)) = [] \<and>
      final (script h w) = h f [implementors] w) \<and>
   (truthy (get_prop w ''register_implementors'') \<and>
    \<not> callable (get_prop w ''register_implementors'') \<longrightarrow>
      assigns (events (script h w)) = [] \<and>
      final (script h w) = Inl TypeError)"
proof -
  have "Assign ''pending_implementors'' implementors \<in> set (events (script h w)) \<longleftrightarrow>
      \<not> truthy (get_prop w ''register_implementors'')"
    by (simp add: script_cases)
  moreover have "\<forall>p v. Assign p v \<in> set (events (script h w)) \<longrightarrow>
      p = ''pending_implementors'' \<and> v = implementors"
    by (simp add: script_cases)
  moreover have "length (assigns (events (script h w))) \<le> 1"
    by (simp add: script_cases)
  moreover have "final (script h w) = Inr (w(''pending_implementors'' \<mapsto> implementors)) \<and>
      (\<exists>w'. final (script h w) = Inr w' \<and>
            w' ''pending_implementors'' = Some implementors \<and>
            w' ''register_implementors'' = w ''register_implementors'' \<and>
            (\<forall>p. p \<noteq> ''pending_implementors'' \<longrightarrow> w' p = w p))"
    if "\<not> truthy (get_prop w ''register_implementors'')"
    using that by (simp add: script_cases)
  moreover have "events (script h w) = [Branch True, Call (Fun f) [implementors]] \<and>
      assigns (events (script h w)) = [] \<and>
      final (script h w) = h f [implementors] w"
    if "get_prop w ''register_implementors'' = Fun f" for f
    using that by (simp add: script_def)
  moreover have "assigns (events (script h w)) = [] \<and> final (script h w) = Inl TypeError"
    if "truthy (get_prop w ''register_implementors'') \<and>
        \<not> callable (get_prop w ''register_implementors'')"
    using that by (simp add: script_cases)
  ultimately show ?thesis by blast
qed

theorem only_pending_is_assigned_witness:
  "Assign ''pending_implementors'' implementors \<in> set (events (script idle_host page_zero)) \<and>
   Assign ''pending_implementors'' implementors \<notin> set (events (script idle_host page_ready)) \<and>
   final (script idle_host page_zero) =
     Inr (page_zero(''pending_implementors'' \<mapsto> implementors)) \<and>
   assigns (events (script idle_host page_other)) = [] \<and>
   final (script idle_host page_other) = Inr page_other \<and>
   final (script keeping_host page_other) =
     Inr (page_other(''received'' \<mapsto> Arr [implementors])) \<and>
   assigns (events (script idle_host page_object)) = [] \<and>
   final (script idle_host page_object) = Inl TypeError"
proof -
  have zero: "\<not> truthy (get_prop page_zero ''register_implementors'')"
    by (simp add: get_prop_pages)
  have ready: "truthy (get_prop page_ready ''register_implementors'')"
    by (simp add: get_prop_pages)
  have "function": "get_prop page_other ''register_implementors'' = Fun 0"
    by (simp add: get_prop_pages)
  have object: "truthy (get_prop page_object ''register_implementors'') \<and>
      \<not> callable (get_prop page_object ''register_implementors'')"
    by (simp add: get_prop_pages)
  from zero only_pending_is_assigned [of idle_host page_zero]
  have "Assign ''pending_implementors'' implementors \<in> set (events (script idle_host page_zero))"
    by blast
  moreover from ready only_pending_is_assigned [of idle_host page_ready]
  have "Assign ''pending_implementors'' implementors \<notin> set (events (script idle_host page_ready))"
    by blast
  moreover from zero only_pending_is_assigned [of idle_host page_zero]
  have "final (script idle_host page_zero) =
      Inr (page_zero(''pending_implementors'' \<mapsto> implementors))"
    by blast
  moreover from "function" only_pending_is_assigned [of idle_host page_other]
  have "assigns (events (script idle_host page_other)) = [] \<and>
      final (script idle_host page_other) = idle_host 0 [implementors] page_other"
    by blast
  then have "assigns (events (script idle_host page_other)) = [] \<and>
      final (script idle_host page_other) = Inr page_other"
    by (simp add: idle_host_def)
  moreover from "function" only_pending_is_assigned [of keeping_host page_other]
  have "final (script keeping_host page_other) = keeping_host 0 [implementors] page_other"
    by blast
  then have "final (script keeping_host page_other) =
      Inr (page_other(''received'' \<mapsto> Arr [implementors]))"
    by (simp add: keeping_host_def)
  moreover from object only_pending_is_assigned [of idle_host page_object]
  have "assigns (events (script idle_host page_object)) = [] \<and>
      final (script idle_host page_object) = Inl TypeError"
    by blast
  ultimately show ?thesis by blast
qed


section \<open>What the table holds\<close>

text \<open>The table has sixteen entries: four, eleven and one under its three keys.\<close>

lemma entry_counts:
  "map (\<lambda>(k, a). (k, length (elems a))) (props implementors) =
     [(''ak09915_rs'', 4), (''embedded_hal'', 11), (''void'', 1)]"
  by (simp add: implementors_def ak09915_rs_impls_def embedded_hal_impls_def void_impls_def)

text \<open>Every entry implements \<^verbatim>\<open>core::marker::Send\<close> and nothing else.\<close>

lemma all_implement_Send:
  "list_all (\<lambda>(k, e). implements ''core::marker::Send'' e) (entries implementors)"
  by code_simp

text \<open>
  C3, as stated, fails: the key \<^verbatim>\<open>void\<close> has one entry, and the trait that entry
  implements is \<^verbatim>\<open>core::marker::Send\<close>, which the key does not name.
\<close>

theorem void_names_no_trait:
  "map (key_names_trait ''void'') (elems (lookup implementors ''void'')) = [False] \<and>
   map (implements ''core::marker::Send'') (elems (lookup implementors ''void'')) = [True]"
  by code_simp

text \<open>
  C3, amended: the table is a static mapping from crate names to the list of that
  crate's types that implement the trait \<^verbatim>\<open>core::marker::Send\<close>. Every top-level key is
  the name of a crate, no key stands twice, and every entry under a key is an
  implementation of that trait for a type of that crate: the type's path starts with
  the key, and the type's page is in the crate's directory.
\<close>

theorem keys_name_crates:
  "distinct (keys implementors) \<and>
   list_all (\<lambda>(k, e). key_names_crate k e) (entries implementors) \<and>
   list_all (\<lambda>(k, e). implements ''core::marker::Send'' e) (entries implementors)"
proof (intro conjI)
  show "distinct (keys implementors)"
    by (simp add: keys_def implementors_def)
  show "list_all (\<lambda>(k, e). key_names_crate k e) (entries implementors)"
    by code_simp
  show "list_all (\<lambda>(k, e). implements ''core::marker::Send'' e) (entries implementors)"
    by (rule all_implement_Send)
qed

text \<open>
  C4: in every entry under every key, the trait between \<^verbatim>\<open>impl\<close> and \<^verbatim>\<open>for\<close>, the
  implemented one, is \<^verbatim>\<open>core::marker::Send\<close> and no other. (One entry names a second
  trait, \<^verbatim>\<open>core::marker::Sync\<close>, in the bound of its where-clause.)
\<close>

theorem every_entry_implements_Send:
  "list_all (\<lambda>(k, e). implements ''core::marker::Send'' e) (entries implementors) \<and>
   length (entries implementors) = 16"
proof (intro conjI)
  show "list_all (\<lambda>(k, e). implements ''core::marker::Send'' e) (entries implementors)"
    by (rule all_implement_Send)
  show "length (entries implementors) = 16"
    by code_simp
qed

text \<open>
  C5: the top-level keys of the table are exactly \<^verbatim>\<open>ak09915_rs\<close>, \<^verbatim>\<open>embedded_hal\<close> and
  \<^verbatim>\<open>void\<close>, in this order, and no other.
\<close>

theorem three_crates:
  "keys implementors = [''ak09915_rs'', ''embedded_hal'', ''void''] \<and>
   set (keys implementors) = {''ak09915_rs'', ''embedded_hal'', ''void''}"
  by (simp add: keys_def implementors_def)

text \<open>
  C6: the table is documentation and no code. Every entry under every key is a triple
  of an HTML string with links, the number 1, and a one-element list with the path of
  the type the HTML names; and no function value stands anywhere in the table, which
  is made of strings, the number and arrays only.
\<close>

theorem table_is_descriptive:
  "list_all (\<lambda>(k, e). descriptive e) (entries implementors) \<and>
   map (\<lambda>(k, a). length (elems a)) (props implementors) = [4, 11, 1] \<and>
   no_functions implementors"
  by code_simp

text \<open>
  C9: of the four entries under \<^verbatim>\<open>ak09915_rs\<close>, those for \<^verbatim>\<open>Register\<close> and \<^verbatim>\<open>Mode\<close> have no
  where-clause, the one for \<^verbatim>\<open>Error\<close> has the bound \<^verbatim>\<open>E: Send\<close> and the one for \<^verbatim>\<open>Ak09915\<close>
  has the bound \<^verbatim>\<open>I2C: Send\<close>.
\<close>

theorem ak09915_rs_bounds:
  "map bound_of (elems (lookup implementors ''ak09915_rs'')) =
     [Some (''ak09915_rs::Register'', None),
      Some (''ak09915_rs::Mode'', None),
      Some (''ak09915_rs::Error'', Some (''E'', [''core::marker::Send''])),
      Some (''ak09915_rs::Ak09915'', Some (''I2C'', [''core::marker::Send'']))]"
  by code_simp


section \<open>The lines of the file\<close>

text \<open>
  The scan for the closing brace passes over the text of a string, of a number and of
  an array of them without a change of state, so it passes over every line that holds
  a property of the table.
\<close>

lemma close_line_string_body:
  "close_line d InString n
     (concat (map (\<lambda>c. if c = CHR 0x22 \<or> c = CHR 0x5C then [CHR 0x5C, c] else [c]) s) @ CHR 0x22 # r) ls =
   close_line d Code n r ls"
  by (induction s) simp_all

lemma close_line_string_text:
  "close_line d Code n (string_text s @ r) ls = close_line d Code n r ls"
  by (simp add: string_text_def close_line_string_body)

lemma digit_char:
  fixes k :: nat
  assumes "k < 10" and "of_char c < (48::nat) \<or> (57::nat) < of_char c"
  shows "char_of (48 + k) \<noteq> c"
proof
  assume "char_of (48 + k) = c"
  then have "of_char (char_of (48 + k)) = (of_char c :: nat)" by simp
  with assms show False by simp
qed

lemma close_line_digit:
  fixes k :: nat
  assumes "k < 10"
  shows "close_line d Code n (char_of (48 + k) # r) ls = close_line d Code n r ls"
proof -
  have "char_of (48 + k) \<noteq> CHR 0x22" by (rule digit_char [OF assms]) simp
  moreover have "char_of (48 + k) \<noteq> CHR ''{''" by (rule digit_char [OF assms]) simp
  moreover have "char_of (48 + k) \<noteq> CHR ''}''" by (rule digit_char [OF assms]) simp
  ultimately show ?thesis by simp
qed

lemma close_line_digits:
  "close_line d Code n (digits k @ r) ls = close_line d Code n r ls"
proof (induction k arbitrary: r rule: digits.induct)
  case (1 k)
  show ?case
  proof (cases "k < 10")
    case True
    then have "digits k = [char_of (48 + k)]"
      by (subst digits.simps) simp
    with True show ?thesis
      by (simp only: append.simps close_line_digit)
  next
    case False
    then have "digits k = digits (k div 10) @ [char_of (48 + k mod 10)]"
      by (subst digits.simps) simp
    then have "close_line d Code n (digits k @ r) ls =
        close_line d Code n (digits (k div 10) @ char_of (48 + k mod 10) # r) ls"
      by (simp only: append.simps append_assoc)
    also have "\<dots> = close_line d Code n (char_of (48 + k mod 10) # r) ls"
      by (rule "1.IH" [OF False])
    also have "\<dots> = close_line d Code n r ls"
      by (rule close_line_digit) simp
    finally show ?thesis .
  qed
qed

lemma close_line_number_text:
  "close_line d Code n (number_text i @ r) ls = close_line d Code n r ls"
  by (simp add: number_text_def close_line_digits del: digits.simps)


lemma close_line_commas:
  assumes "\<And>t d r. t \<in> set ts \<Longrightarrow> close_line d Code n (t @ r) ls = close_line d Code n r ls"
  shows "close_line d Code n (commas ts @ r) ls = close_line d Code n r ls"
  using assms
proof (induction ts arbitrary: r rule: commas.induct)
  case 1
  then show ?case by simp
next
  case (2 s)
  then show ?case by simp
next
  case (3 s t ts)
  have "close_line d Code n (commas (s # t # ts) @ r) ls =
      close_line d Code n (s @ CHR '','' # commas (t # ts) @ r) ls"
    by simp
  also have "\<dots> = close_line d Code n (CHR '','' # commas (t # ts) @ r) ls"
    by (rule "3.prems") simp
  also have "\<dots> = close_line d Code n (commas (t # ts) @ r) ls"
    by simp
  also have "\<dots> = close_line d Code n r ls"
    by (rule "3.IH") (simp add: "3.prems")
  finally show ?case .
qed

lemma those_map_Some:
  "those (map f xs) = Some ys \<Longrightarrow>
   length ys = length xs \<and> (\<forall>y \<in> set ys. \<exists>x \<in> set xs. f x = Some y)"
proof (induction xs arbitrary: ys)
  case Nil
  then show ?case by simp
next
  case (Cons x xs)
  from Cons.prems obtain z zs where z: "f x = Some z" and zs: "those (map f xs) = Some zs"
    and ys: "ys = z # zs"
    by (auto split: option.splits)
  from Cons.IH [OF zs] have "length zs = length xs"
    and "\<forall>y \<in> set zs. \<exists>x \<in> set xs. f x = Some y"
    by simp_all
  with z ys show ?case by auto
qed

lemma close_line_value_text:
  "value_text v = Some t \<Longrightarrow> close_line d Code n (t @ r) ls = close_line d Code n r ls"
proof (induction v arbitrary: t d r)
  case (Str s)
  then show ?case by (auto simp add: close_line_string_text)
next
  case (Num i)
  then show ?case by (auto simp add: close_line_number_text)
next
  case (Arr xs)
  from Arr.prems obtain ts where ts: "those (map value_text xs) = Some ts"
    and t: "t = CHR ''['' # commas ts @ '']''"
    by auto
  have inner: "close_line d' Code n (u @ r') ls = close_line d' Code n r' ls"
    if "u \<in> set ts" for u d' r'
  proof -
    from those_map_Some [OF ts] that obtain x where "x \<in> set xs" "value_text x = Some u"
      by blast
    then show ?thesis by (rule Arr.IH)
  qed
  have "close_line d Code n (t @ r) ls = close_line d Code n (commas ts @ CHR '']'' # r) ls"
    by (simp add: t)
  also have "\<dots> = close_line d Code n (CHR '']'' # r) ls"
    by (rule close_line_commas) (rule inner)
  also have "\<dots> = close_line d Code n r ls"
    by simp
  finally show ?case .
qed simp_all

lemma close_line_property_text:
  assumes "property_text kv = Some t"
  shows "close_line d Code n (t @ r) ls = close_line d Code n r ls"
proof -
  from assms obtain u where u: "value_text (snd kv) = Some u"
    and t: "t = string_text (fst kv) @ CHR '':'' # u"
    by (auto simp add: property_text_def)
  have "close_line d Code n (t @ r) ls = close_line d Code n (CHR '':'' # u @ r) ls"
    by (simp add: t close_line_string_text)
  also have "\<dots> = close_line d Code n (u @ r) ls"
    by simp
  also have "\<dots> = close_line d Code n r ls"
    by (rule close_line_value_text [OF u])
  finally show ?thesis .
qed

lemma close_line_rows:
  assumes "\<And>t d r n ls. t \<in> set ps \<Longrightarrow>
      close_line d Code n (t @ r) ls = close_line d Code n r ls"
  shows "close_line 0 Code n [] (comma_ended ps @ [wrapper_tail]) = Some (Suc (n + length ps))"
  using assms
proof (induction ps arbitrary: n rule: comma_ended.induct)
  case 1
  show ?case by (simp add: wrapper_tail_def)
next
  case (2 s)
  have "close_line 0 Code n [] (comma_ended [s] @ [wrapper_tail]) =
      close_line 0 Code (Suc n) (s @ []) [wrapper_tail]"
    by simp
  also have "\<dots> = close_line 0 Code (Suc n) [] [wrapper_tail]"
    by (rule "2.prems") simp
  also have "\<dots> = Some (Suc (n + length [s]))"
    by (simp add: wrapper_tail_def)
  finally show ?case .
next
  case (3 s t ts)
  have "close_line 0 Code n [] (comma_ended (s # t # ts) @ [wrapper_tail]) =
      close_line 0 Code (Suc n) (s @ '','') (comma_ended (t # ts) @ [wrapper_tail])"
    by simp
  also have "\<dots> = close_line 0 Code (Suc n) '','' (comma_ended (t # ts) @ [wrapper_tail])"
    by (rule "3.prems") simp
  also have "\<dots> = close_line 0 Code (Suc n) [] (comma_ended (t # ts) @ [wrapper_tail])"
    by simp
  also have "\<dots> = Some (Suc (Suc n + length (t # ts)))"
    by (rule "3.IH") (simp add: "3.prems")
  finally show ?case by simp
qed

text \<open>The file's five lines have 33, 1567, 4078, 253 and 136 characters.\<close>

lemma line_lengths:
  "map_option (map length) script_lines = Some [33, 1567, 4078, 253, 136]"
  by code_simp

text \<open>
  C8: the file has five lines, and the table's literal spans all five: it opens on
  line 1 and the brace that closes it is on line 5.
\<close>

theorem table_spans_five_lines:
  "map_option length script_lines = Some 5 \<and>
   Option.bind script_lines (table_span 1) = Some (1, 5) \<and>
   Option.bind script_lines lines_spanned = Some 5"
proof -
  from line_lengths obtain ps
    where ps: "those (map property_text (props implementors)) = Some ps"
    by (auto simp add: script_lines_def)
  then have lines: "script_lines = Some (wrapper_head # comma_ended ps @ [wrapper_tail])"
    by (simp add: script_lines_def)
  from those_map_Some [OF ps] have three: "length ps = 3"
    by (simp add: implementors_def)
  from those_map_Some [OF ps] have rendered: "\<forall>p \<in> set ps. \<exists>kv. property_text kv = Some p"
    by blast
  have skip: "close_line d Code n (t @ r) ls = close_line d Code n r ls"
    if "t \<in> set ps" for t d r n ls
    using rendered that close_line_property_text by blast
  have start: "after_first ''var implementors = {'' wrapper_head = Some []"
    by (simp add: wrapper_head_def)
  have "close_line 0 Code 1 [] (comma_ended ps @ [wrapper_tail]) = Some (Suc (1 + length ps))"
    by (rule close_line_rows) (rule skip)
  with start three
  have span: "table_span 1 (wrapper_head # comma_ended ps @ [wrapper_tail]) = Some (1, 5)"
    by simp
  from line_lengths have five: "map_option length script_lines = Some 5"
    by (auto simp add: lines)
  from five span show ?thesis
    by (simp add: lines lines_spanned_def)
qed

end
